theory Spec2Isabelle
  imports Complex_Main "HOL-Library.Char_ord" "HOL-Library.List_Lexorder" "HOL-Library.Product_Lexorder"
begin

section \<open>Python values, exceptions and string helpers\<close>

text \<open>
  The module \<^verbatim>\<open>assembly/patch.py\<close> is Python 2. Rows of the tabular files are
  lists of strings, integers are unbounded (\<open>int\<close>), and every exception the code can
  raise is a value of \<open>error\<close>: a function that may raise returns \<open>error + 'a\<close>,
  with \<open>Inl\<close> for the exception.
\<close>

datatype error =
    IndexError | ValueError | KeyError | TypeError | AssertionError | UnboundLocalError | IOError

type_synonym row = "string list"

text \<open>\<^verbatim>\<open>s.split(c)\<close> for a one-character separator: never the empty list.\<close>

fun split_on :: "char \<Rightarrow> string \<Rightarrow> string list" where
  "split_on c [] = [[]]"
| "split_on c (x # xs) =
     (if x = c then [] # split_on c xs
      else (case split_on c xs of
              w # ws \<Rightarrow> (x # w) # ws
            | [] \<Rightarrow> [[x]]))"

text \<open>\<^verbatim>\<open>sep.join(xs)\<close>.\<close>

fun join :: "string \<Rightarrow> string list \<Rightarrow> string" where
  "join sep [] = []"
| "join sep [x] = x"
| "join sep (x # y # ys) = x @ sep @ join sep (y # ys)"

definition TAB :: string where
  "TAB = [char_of (9::nat)]"

text \<open>\<^verbatim>\<open>s.startswith(p)\<close>.\<close>

fun startswith :: "string \<Rightarrow> string \<Rightarrow> bool" where
  "startswith s [] = True"
| "startswith [] (p # ps) = False"
| "startswith (x # xs) (p # ps) = (x = p \<and> startswith xs ps)"

text \<open>
  \<^verbatim>\<open>s.split()\<close>: the maximal runs of characters that are not whitespace (space,
  and the control characters 9 to 13). \<open>w\<close> is the run read so far, reversed.
\<close>

definition is_space :: "char \<Rightarrow> bool" where
  "is_space c = (c = CHR '' '' \<or> (9 \<le> (of_char c :: nat) \<and> (of_char c :: nat) \<le> 13))"

fun split_ws_from :: "string \<Rightarrow> string \<Rightarrow> string list" where
  "split_ws_from w [] = (if w = [] then [] else [rev w])"
| "split_ws_from w (c # cs) =
     (if is_space c then (if w = [] then split_ws_from [] cs else rev w # split_ws_from [] cs)
      else split_ws_from (c # w) cs)"

definition split_ws :: "string \<Rightarrow> string list" where
  "split_ws s = split_ws_from [] s"

text \<open>
  \<^verbatim>\<open>int(s)\<close> on a token without whitespace: an optional sign and at least one decimal
  digit, ValueError otherwise.
\<close>

definition digit_val :: "char \<Rightarrow> nat option" where
  "digit_val c = map_of
     [(CHR ''0'', 0), (CHR ''1'', 1), (CHR ''2'', 2), (CHR ''3'', 3), (CHR ''4'', 4),
      (CHR ''5'', 5), (CHR ''6'', 6), (CHR ''7'', 7), (CHR ''8'', 8), (CHR ''9'', 9)] c"

fun digits_val :: "nat \<Rightarrow> string \<Rightarrow> nat option" where
  "digits_val n [] = Some n"
| "digits_val n (c # cs) =
     (case digit_val c of None \<Rightarrow> None | Some d \<Rightarrow> digits_val (10 * n + d) cs)"

definition py_int :: "string \<Rightarrow> error + int" where
  "py_int s =
     (let (neg, ds) = (case s of
                         c # cs \<Rightarrow> if c = CHR ''-'' then (True, cs)
                                   else if c = CHR ''+'' then (False, cs) else (False, s)
                       | [] \<Rightarrow> (False, s))
      in if ds = [] then Inl ValueError
         else (case digits_val 0 ds of
                 None \<Rightarrow> Inl ValueError
               | Some n \<Rightarrow> Inr (if neg then - int n else int n)))"

text \<open>\<^verbatim>\<open>xs[i]\<close> for \<open>i \<ge> 0\<close> and \<^verbatim>\<open>xs[-1]\<close>: IndexError out of range.\<close>

definition py_nth :: "'a list \<Rightarrow> nat \<Rightarrow> error + 'a" where
  "py_nth xs i = (if i < length xs then Inr (xs ! i) else Inl IndexError)"

definition py_last :: "'a list \<Rightarrow> error + 'a" where
  "py_last xs = (case xs of [] \<Rightarrow> Inl IndexError | _ \<Rightarrow> Inr (last xs))"

text \<open>
  \<^verbatim>\<open>itertools.groupby(xs, key)\<close>, read to the end: maximal runs of consecutive
  elements with equal keys, each with its key, in input order. An element joins the
  run that follows it when its key equals that run's key.
\<close>

fun groupby :: "('a \<Rightarrow> 'k) \<Rightarrow> 'a list \<Rightarrow> ('k \<times> 'a list) list" where
  "groupby key [] = []"
| "groupby key (x # xs) =
     (case groupby key xs of
        [] \<Rightarrow> [(key x, [x])]
      | (k, g) # rest \<Rightarrow>
          if key x = k then (k, x # g) # rest else (key x, [x]) # (k, g) # rest)"

text \<open>
  \<^verbatim>\<open>max(xs)\<close>: ValueError on the empty sequence; otherwise a scan that replaces the
  running maximum only by a strictly greater item, so of equal items the first stays.
  Tuples and lists compare lexicographically, strings by character code.
\<close>

fun py_max :: "'a::linorder list \<Rightarrow> error + 'a" where
  "py_max [] = Inl ValueError"
| "py_max (x # xs) = Inr (foldl (\<lambda>m y. if y > m then y else m) x xs)"

text \<open>\<^verbatim>\<open>min(xs)\<close>, likewise: of equal items the first stays.\<close>

fun py_min :: "'a::linorder list \<Rightarrow> error + 'a" where
  "py_min [] = Inl ValueError"
| "py_min (x # xs) = Inr (foldl (\<lambda>m y. if y < m then y else m) x xs)"

text \<open>\<^verbatim>\<open>str(n)\<close> of an integer: its decimal digits, with a minus sign when negative.\<close>

definition digit_char :: "nat \<Rightarrow> char" where
  "digit_char d = ''0123456789'' ! d"

function str_nat :: "nat \<Rightarrow> string" where
  "str_nat n = (if n < 10 then [digit_char n] else str_nat (n div 10) @ [digit_char (n mod 10)])"
  by pat_completeness auto
termination
  by (relation "measure id") auto

definition str_int :: "int \<Rightarrow> string" where
  "str_int i = (if i < 0 then CHR ''-'' # str_nat (nat (- i)) else str_nat (nat i))"

text \<open>
  The loop \<^verbatim>\<open>for k, sb in groupby(xs, key): sb = list(sb); body\<close> with a key function
  that may raise. \<open>groupby\<close> is lazy: it computes the key of an element when it reaches
  it, so the key of the element that ends a group is computed (and may raise) before the
  body runs on that group. \<open>k\<close> and \<open>sb\<close> are the key and the members of the group
  being read, \<open>s\<close> the state the bodies have built so far.
\<close>

fun groupby_run ::
  "('a \<Rightarrow> error + 'k) \<Rightarrow> ('k \<Rightarrow> 'a list \<Rightarrow> 's \<Rightarrow> error + 's) \<Rightarrow> 'k \<Rightarrow> 'a list \<Rightarrow> 'a list \<Rightarrow> 's
     \<Rightarrow> error + 's" where
  "groupby_run key body k sb [] s = body k sb s"
| "groupby_run key body k sb (x # xs) s =
     (case key x of
        Inl e \<Rightarrow> Inl e
      | Inr k' \<Rightarrow>
          if k' = k then groupby_run key body k (sb @ [x]) xs s
          else (case body k sb s of
                  Inl e \<Rightarrow> Inl e
                | Inr s' \<Rightarrow> groupby_run key body k' [x] xs s'))"

definition for_groupby ::
  "('a \<Rightarrow> error + 'k) \<Rightarrow> ('k \<Rightarrow> 'a list \<Rightarrow> 's \<Rightarrow> error + 's) \<Rightarrow> 'a list \<Rightarrow> 's \<Rightarrow> error + 's" where
  "for_groupby key body xs s =
     (case xs of
        [] \<Rightarrow> Inr s
      | x # rest \<Rightarrow>
          (case key x of Inl e \<Rightarrow> Inl e | Inr k \<Rightarrow> groupby_run key body k [x] rest s))"


text \<open>\<^verbatim>\<open>os.path.join(a, b)\<close> for two components.\<close>

definition op_join :: "string \<Rightarrow> string \<Rightarrow> string" where
  "op_join a b =
     (if startswith b ''/'' then b
      else if a = [] \<or> last a = CHR ''/'' then a @ b
      else a @ ''/'' @ b)"

section \<open>Breakpoint detector: \<^verbatim>\<open>check_markers\<close>\<close>

text \<open>\<^verbatim>\<open>OK, BREAK, END = range(3)\<close>\<close>

datatype label = OK | BREAK | END

text \<open>
  Modelled from the spec: \<^verbatim>\<open>hamming_distance\<close> of \<^verbatim>\<open>jcvi.algorithms.matrix\<close> is
  imported by \<^verbatim>\<open>check_markers\<close> but is not among the sources. The spec describes it
  as the number of genotype positions that disagree, ignoring missing calls: a position
  of the two rows, paired in order, counts when the two calls differ and neither is the
  ignored call.
\<close>

definition hamming_distance :: "string list \<Rightarrow> string list \<Rightarrow> string \<Rightarrow> nat" where
  "hamming_distance a b ignore =
     length (filter (\<lambda>(x, y). x \<noteq> ignore \<and> y \<noteq> ignore \<and> x \<noteq> y) (zip a b))"

text \<open>
  \<^verbatim>\<open>check_markers(a, b, maxdiff)\<close>, lines 38-52. \<open>a[0]\<close> raises IndexError on an empty
  row; the two-name unpacking of \<open>aid.split(".")\<close> raises ValueError unless the id
  has exactly one dot. \<open>maxdiff\<close> is a Python float; it is taken here as an exact
  rational, so \<open>len(ageno) * maxdiff\<close> is the exact product.
\<close>

definition check_markers ::
  "row \<Rightarrow> row \<Rightarrow> rat \<Rightarrow> error + (label \<times> (string \<times> string \<times> string) option)" where
  "check_markers a b maxdiff =
     (case a of
        [] \<Rightarrow> Inl IndexError
      | aid # ageno \<Rightarrow>
        (case b of
           [] \<Rightarrow> Inl IndexError
         | bid # bgeno \<Rightarrow>
           (case split_on CHR ''.'' aid of
              [ascf, apos] \<Rightarrow>
                (case split_on CHR ''.'' bid of
                   [bscf, bpos] \<Rightarrow>
                     if ascf \<noteq> bscf then Inr (END, None)
                     else
                       (let diff = hamming_distance ageno bgeno ''-'';
                            max_allowed = of_nat (length ageno) * maxdiff
                        in if of_nat diff \<le> max_allowed then Inr (OK, None)
                           else Inr (BREAK, Some (ascf, apos, bpos)))
                 | _ \<Rightarrow> Inl ValueError)
            | _ \<Rightarrow> Inl ValueError)))"



section \<open>\<^verbatim>\<open>mapbreaks\<close>: singleton removal and breakpoint report\<close>

text \<open>
  Modelled from the spec: \<^verbatim>\<open>pairwise\<close> of \<^verbatim>\<open>jcvi.utils.iter\<close> is not among the
  sources; the spec has breakpoints derived from comparing consecutive retained markers,
  so it yields each element paired with its successor.
\<close>

definition pairwise :: "'a list \<Rightarrow> ('a \<times> 'a) list" where
  "pairwise xs = zip xs (tl xs)"

text \<open>
  Lines 74-81: the rows after the first line that starts with \<open>locus_name\<close>, each
  split at whitespace.
\<close>

definition read_mstmap :: "string list \<Rightarrow> row list" where
  "read_mstmap fp =
     (case dropWhile (\<lambda>r. \<not> startswith r ''locus_name'') fp of
        [] \<Rightarrow> []
      | header # rest \<Rightarrow> map split_ws rest)"

text \<open>
  Lines 84-95, the loop \<^verbatim>\<open>for i in xrange(1, len(data) - 1)\<close> over the indices still
  to visit, with \<open>good\<close> and \<open>nsingletons\<close> as loop state. The indices are interior,
  so \<open>data[i - 1]\<close>, \<open>data[i]\<close> and \<open>data[i + 1]\<close> are in range.
\<close>

fun remove_singletons ::
  "row list \<Rightarrow> rat \<Rightarrow> nat list \<Rightarrow> row list \<times> nat \<Rightarrow> error + (row list \<times> nat)" where
  "remove_singletons data diff [] (good, nsingletons) = Inr (good, nsingletons)"
| "remove_singletons data diff (i # is) (good, nsingletons) =
     (let a = data ! i in
      case check_markers (data ! (i - 1)) a diff of
        Inl e \<Rightarrow> Inl e
      | Inr (left_label, left_rr) \<Rightarrow>
        (case check_markers a (data ! (i + 1)) diff of
           Inl e \<Rightarrow> Inl e
         | Inr (right_label, right_rr) \<Rightarrow>
             if left_label = BREAK \<and> right_label = BREAK
             then remove_singletons data diff is (good, nsingletons + 1)
             else remove_singletons data diff is (good @ [a], nsingletons)))"

text \<open>Lines 99-102: one printed line per consecutive pair of \<open>good\<close> labelled BREAK.\<close>

fun report_breaks :: "rat \<Rightarrow> (row \<times> row) list \<Rightarrow> error + string list" where
  "report_breaks diff [] = Inr []"
| "report_breaks diff ((a, b) # ps) =
     (case check_markers a b diff of
        Inl e \<Rightarrow> Inl e
      | Inr (label, rr) \<Rightarrow>
        (if label = BREAK
         then (case rr of
                 None \<Rightarrow> Inl TypeError
               | Some (scf, apos, bpos) \<Rightarrow>
                   (case report_breaks diff ps of
                      Inl e \<Rightarrow> Inl e
                    | Inr out \<Rightarrow> Inr (join TAB [scf, apos, bpos] # out)))
         else report_breaks diff ps))"

text \<open>
  \<^verbatim>\<open>mapbreaks\<close> from the parsed rows on: the number of singletons removed (logged)
  and the lines printed.
\<close>

definition mapbreaks_data :: "row list \<Rightarrow> rat \<Rightarrow> error + (nat \<times> string list)" where
  "mapbreaks_data data diff =
     (case remove_singletons data diff [1..<length data - 1] ([], 0) of
        Inl e \<Rightarrow> Inl e
      | Inr (good, nsingletons) \<Rightarrow>
        (case report_breaks diff (pairwise good) of
           Inl e \<Rightarrow> Inl e
         | Inr out \<Rightarrow> Inr (nsingletons, out)))"

definition mapbreaks :: "string list \<Rightarrow> rat \<Rightarrow> error + (nat \<times> string list)" where
  "mapbreaks fp diff = mapbreaks_data (read_mstmap fp) diff"

text \<open>
  The claims' wording, for comparison: the label of a pair, the interior positions of
  the rows, and the interior positions that are not flanked by BREAK on both sides.
\<close>

definition label_of :: "row \<Rightarrow> row \<Rightarrow> rat \<Rightarrow> label option" where
  "label_of a b diff = (case check_markers a b diff of Inl e \<Rightarrow> None | Inr (l, rr) \<Rightarrow> Some l)"

definition flanked_by_breaks :: "row list \<Rightarrow> rat \<Rightarrow> nat \<Rightarrow> bool" where
  "flanked_by_breaks data diff i =
     (label_of (data ! (i - 1)) (data ! i) diff = Some BREAK
      \<and> label_of (data ! i) (data ! (i + 1)) diff = Some BREAK)"

definition retained_positions :: "row list \<Rightarrow> rat \<Rightarrow> nat list" where
  "retained_positions data diff =
     filter (\<lambda>i. \<not> flanked_by_breaks data diff i) [1..<length data - 1]"

text \<open>The line a pair of rows contributes to the report: one line when the pair is
  labelled BREAK, none otherwise.\<close>

definition break_line :: "rat \<Rightarrow> row \<times> row \<Rightarrow> string list" where
  "break_line diff p =
     (case check_markers (fst p) (snd p) diff of
        Inr (BREAK, Some (scf, apos, bpos)) \<Rightarrow> [join TAB [scf, apos, bpos]]
      | _ \<Rightarrow> [])"

text \<open>A row the detector can read: a marker id with exactly one dot, then the genotypes.\<close>

definition marker_row :: "row \<Rightarrow> bool" where
  "marker_row r = (case r of [] \<Rightarrow> False | rid # geno \<Rightarrow> length (split_on CHR ''.'' rid) = 2)"

text \<open>A small genetic map used to evaluate the definitions: the third of the five
  markers disagrees with both of its neighbours.\<close>

definition mstmap_example :: "row list" where
  "mstmap_example =
     [[''s1.10'', ''A'', ''A'', ''A'', ''A''],
      [''s1.20'', ''A'', ''A'', ''A'', ''A''],
      [''s1.30'', ''B'', ''B'', ''B'', ''B''],
      [''s1.40'', ''B'', ''B'', ''A'', ''A''],
      [''s1.50'', ''B'', ''B'', ''A'', ''A'']]"

section \<open>\<^verbatim>\<open>refine\<close>: the largest overlapping gap of each breakpoint\<close>

text \<open>
  Lines 132-142, over the rows of the intersection file: the groups of consecutive rows
  with the same first three fields. The state is the lines written so far to the
  no-gaps file and to the largest-gaps file.
\<close>

definition sized :: "row \<Rightarrow> error + (int \<times> row)" where
  "sized x = (case py_last x of
                Inl e \<Rightarrow> Inl e
              | Inr f \<Rightarrow> (case py_int f of Inl e \<Rightarrow> Inl e | Inr n \<Rightarrow> Inr (n, x)))"

fun sized_all :: "row list \<Rightarrow> error + (int \<times> row) list" where
  "sized_all [] = Inr []"
| "sized_all (x # xs) =
     (case sized x of
        Inl e \<Rightarrow> Inl e
      | Inr p \<Rightarrow> (case sized_all xs of Inl e \<Rightarrow> Inl e | Inr ps \<Rightarrow> Inr (p # ps)))"

definition largest_gap :: "row list \<Rightarrow> error + row" where
  "largest_gap gaps =
     (case sized_all gaps of
        Inl e \<Rightarrow> Inl e
      | Inr ps \<Rightarrow> (case py_max ps of Inl e \<Rightarrow> Inl e | Inr m \<Rightarrow> Inr (snd m)))"

definition no_gap :: "row list \<Rightarrow> error + bool" where
  "no_gap gaps =
     (case gaps of
        [gap] \<Rightarrow> (case py_nth gap 3 of Inl e \<Rightarrow> Inl e | Inr f \<Rightarrow> Inr (f = ''.''))
      | _ \<Rightarrow> Inr False)"

fun refine_groups ::
  "(row \<times> row list) list \<Rightarrow> string list \<times> string list \<Rightarrow> error + (string list \<times> string list)" where
  "refine_groups [] (nogaps, largestgaps) = Inr (nogaps, largestgaps)"
| "refine_groups ((b, gaps) # rest) (nogaps, largestgaps) =
     (case no_gap gaps of
        Inl e \<Rightarrow> Inl e
      | Inr True \<Rightarrow>
          (case py_nth (hd gaps) 4 of
             Inl e \<Rightarrow> Inl e
           | Inr f \<Rightarrow>
               if f \<noteq> ''-1'' then Inl AssertionError
               else refine_groups rest (nogaps @ [join TAB b], largestgaps))
      | Inr False \<Rightarrow>
          (case largest_gap gaps of
             Inl e \<Rightarrow> Inl e
           | Inr maxgap \<Rightarrow>
               refine_groups rest (nogaps, largestgaps @ [join TAB (drop 3 maxgap)])))"

definition refine_data :: "row list \<Rightarrow> error + (string list \<times> string list)" where
  "refine_data data = refine_groups (groupby (take 3) data) ([], [])"

text \<open>The claim's wording, for comparison: the numeric size field of a row, its last
  column (0 when the row has none that reads as an integer).\<close>

definition gap_size :: "row \<Rightarrow> int" where
  "gap_size x = (case sized x of Inl e \<Rightarrow> 0 | Inr (n, y) \<Rightarrow> n)"

text \<open>Rows of an intersection file used to evaluate the definitions: one breakpoint
  region overlapped by two gaps, both with overlap 10.\<close>

definition tied_gaps :: "row list" where
  "tied_gaps =
     [[''chr1'', ''90'', ''200'', ''chr1'', ''99'', ''109'', ''10''],
      [''chr1'', ''90'', ''200'', ''chr1'', ''150'', ''160'', ''10'']]"


section \<open>\<^verbatim>\<open>certificate\<close>: neighbour lines of a tiling path\<close>

text \<open>
  A line of the tiling path file, with the attributes \<^verbatim>\<open>certificate\<close> reads. The
  classes \<^verbatim>\<open>TPF\<close> and \<^verbatim>\<open>Fasta\<close>, \<^verbatim>\<open>check_certificate\<close> and \<^verbatim>\<open>overlap\<close>
  are imported from other modules, and the file system is outside the program: what
  they return is a parameter of the model.
  \<^item> \<open>path_exists\<close>: \<^verbatim>\<open>os.path.exists\<close>;
  \<^item> \<open>first_size\<close>: name and size of the first record of a FASTA file,
    \<^verbatim>\<open>Fasta(af).itersizes().next()\<close>;
  \<^item> \<open>getNorthSouthClone\<close>: the neighbours of the line at an index, \<open>None\<close> at an
    end of the chromosome;
  \<^item> \<open>overlap\<close>: the certificate line of the computed overlap, \<open>None\<close> when the
    result is empty.
\<close>

record tpfline =
  object :: string
  component_id :: string
  is_gap :: bool
  isCloneGap :: bool
  gap_type :: string

record cert_env =
  path_exists :: "string \<Rightarrow> bool"
  first_size :: "string \<Rightarrow> error + (string \<times> int)"
  getNorthSouthClone :: "nat \<Rightarrow> tpfline option \<times> tpfline option"
  overlap :: "string list \<Rightarrow> error + string option"

text \<open>What the run does to the outside: lines printed to the certificate file, flushes
  of it, and calls of \<^verbatim>\<open>overlap\<close> with their argument list.\<close>

datatype event = Print string | Flush | Overlap "string list"

text \<open>\<^verbatim>\<open>phase(aid, fastadir, backbone)\<close>, lines 161-168.\<close>

definition phase :: "cert_env \<Rightarrow> string \<Rightarrow> string \<Rightarrow> string \<Rightarrow> error + (int \<times> int)" where
  "phase env aid fastadir backbone =
     (let af = op_join fastadir (aid @ ''.fasta'') in
      case first_size env af of
        Inl e \<Rightarrow> Inl e
      | Inr (k, fs) \<Rightarrow>
          if aid \<noteq> k then Inl AssertionError
          else Inr (if startswith aid backbone then 2 else 1, fs))"

text \<open>
  Lines 243-245: the line for one neighbour. \<open>bphase\<close> is the text \<^verbatim>\<open>str(bphase)\<close>
  gives, \<open>None\<close> while the variable has not been assigned: the telomere branch does
  not assign it.
\<close>

definition print_line ::
  "string \<Rightarrow> tpfline \<Rightarrow> int \<Rightarrow> string option \<Rightarrow> string \<Rightarrow> event list
     \<Rightarrow> error + (string option \<times> event list)" where
  "print_line tag a aphase bphase ov fw =
     (case bphase of
        None \<Rightarrow> Inl UnboundLocalError
      | Some bp \<Rightarrow>
          Inr (bphase,
               fw @ [Print (join TAB [tag, object a, str_int aphase, bp, component_id a, ov]),
                     Flush]))"

text \<open>
  Lines 225-245: the body of \<^verbatim>\<open>for tag, p in (("North", north), ("South", south))\<close>.
  \<open>data\<close> is the dictionary \<^verbatim>\<open>check_certificate\<close> loaded. The state is \<open>bphase\<close>
  and the events so far.
\<close>

definition certificate_side ::
  "cert_env \<Rightarrow> (string \<times> string \<times> string \<rightharpoonup> string) \<Rightarrow> string \<Rightarrow> string \<Rightarrow> tpfline \<Rightarrow> int \<Rightarrow> int
     \<Rightarrow> string \<Rightarrow> tpfline option \<Rightarrow> string option \<times> event list
     \<Rightarrow> error + (string option \<times> event list)" where
  "certificate_side env data fastadir bb a aphase asize tag p st =
     (let aid = component_id a; (bphase, fw) = st in
      case p of
        None \<Rightarrow> print_line tag a aphase bphase (''telomere'' @ TAB @ str_int asize) fw
      | Some pc \<Rightarrow>
          if isCloneGap pc
          then print_line tag a aphase (Some ''0'') (gap_type pc @ TAB @ str_int asize) fw
          else
            (let bid = component_id pc in
             case phase env bid fastadir bb of
               Inl e \<Rightarrow> Inl e
             | Inr (bph, bsize) \<Rightarrow>
               (case data (tag, aid, bid) of
                  Some line \<Rightarrow> Inr (Some (str_int bph), fw @ [Print line])
                | None \<Rightarrow>
                    (let ar = [aid, bid, ''--dir='' @ fastadir] in
                     case overlap env ar of
                       Inl e \<Rightarrow> Inl e
                     | Inr ovl \<Rightarrow>
                         print_line tag a aphase (Some (str_int bph))
                           (case ovl of
                              Some certificateline \<Rightarrow> certificateline
                            | None \<Rightarrow> bid @ TAB @ str_int asize @ TAB @ ''None'')
                           (fw @ [Overlap ar])))))"

text \<open>Lines 212-245: the loop over \<^verbatim>\<open>enumerate(tpf)\<close>.\<close>

fun certificate_lines ::
  "cert_env \<Rightarrow> (string \<times> string \<times> string \<rightharpoonup> string) \<Rightarrow> string \<Rightarrow> string \<Rightarrow> (nat \<times> tpfline) list
     \<Rightarrow> string option \<times> event list \<Rightarrow> error + (string option \<times> event list)" where
  "certificate_lines env data fastadir bb [] st = Inr st"
| "certificate_lines env data fastadir bb ((i, a) # rest) st =
     (if is_gap a then certificate_lines env data fastadir bb rest st
      else
        (let aid = component_id a; af = op_join fastadir (aid @ ''.fasta'') in
         if \<not> path_exists env af then Inl AssertionError
         else
           (let (north, south) = getNorthSouthClone env i in
            case phase env aid fastadir bb of
              Inl e \<Rightarrow> Inl e
            | Inr (aphase, asize) \<Rightarrow>
              (case certificate_side env data fastadir bb a aphase asize ''North'' north st of
                 Inl e \<Rightarrow> Inl e
               | Inr st1 \<Rightarrow>
                 (case certificate_side env data fastadir bb a aphase asize ''South'' south st1 of
                    Inl e \<Rightarrow> Inl e
                  | Inr st2 \<Rightarrow> certificate_lines env data fastadir bb rest st2)))))"

definition certificate ::
  "cert_env \<Rightarrow> (string \<times> string \<times> string \<rightharpoonup> string) \<Rightarrow> string \<Rightarrow> tpfline list \<Rightarrow> error + event list" where
  "certificate env data bb tpf =
     (case certificate_lines env data ''fasta'' bb (zip [0..<length tpf] tpf) (None, []) of
        Inl e \<Rightarrow> Inl e
      | Inr (bphase, fw) \<Rightarrow> Inr fw)"

text \<open>
  A tiling path and its surroundings used to evaluate the definitions: the clone
  \<open>AC1\<close> ends the chromosome in the north and has the backbone scaffold
  \<open>Scaffold9\<close> to its south; the certificate file already holds the line for that
  pair.
\<close>

definition ac1_line :: tpfline where
  "ac1_line = \<lparr>object = ''chr1'', component_id = ''AC1'', is_gap = False,
                isCloneGap = False, gap_type = []\<rparr>"

definition scaffold9_line :: tpfline where
  "scaffold9_line = \<lparr>object = ''chr1'', component_id = ''Scaffold9'', is_gap = False,
                      isCloneGap = False, gap_type = []\<rparr>"

definition example_env :: cert_env where
  "example_env =
     \<lparr>path_exists = (\<lambda>af. True),
      first_size = (\<lambda>af. case map_of [(''fasta/AC1.fasta'', (''AC1'', 58443)),
                                        (''fasta/Scaffold9.fasta'', (''Scaffold9'', 37835))] af of
                           None \<Rightarrow> Inl IOError
                         | Some v \<Rightarrow> Inr v),
      getNorthSouthClone = (\<lambda>i. (None, Some scaffold9_line)),
      overlap = (\<lambda>ar. Inr None)\<rparr>"

definition example_certificate :: "string \<times> string \<times> string \<rightharpoonup> string" where
  "example_certificate =
     map_of [((''South'', ''AC1'', ''Scaffold9''),
              ''South chr1 1 2 AC1 Scaffold9 58443 37835 58443 + Non-terminal'')]"

section \<open>\<^verbatim>\<open>merge_ranges\<close> and \<^verbatim>\<open>prepare\<close>: merged, flanked patchers\<close>

text \<open>
  A line of a BED file as the formats library presents it, and the \<^verbatim>\<open>Range\<close> that
  \<^verbatim>\<open>range_parse\<close> of \<^verbatim>\<open>jcvi.utils.range\<close> reads from an accession. \<^verbatim>\<open>range_parse\<close>
  is not among the sources: it is a parameter of the model, a function from the
  accession text that may raise.
\<close>

record bedline =
  seqid :: string
  start :: int
  end_pos :: int
  accn :: string
  strand :: string

record range =
  rseqid :: string
  rstart :: int
  rend :: int

fun parse_all :: "(string \<Rightarrow> error + range) \<Rightarrow> string list \<Rightarrow> error + range list" where
  "parse_all range_parse [] = Inr []"
| "parse_all range_parse (x # xs) =
     (case range_parse x of
        Inl e \<Rightarrow> Inl e
      | Inr r \<Rightarrow> (case parse_all range_parse xs of Inl e \<Rightarrow> Inl e | Inr rs \<Rightarrow> Inr (r # rs)))"

text \<open>
  \<^verbatim>\<open>merge_ranges(beds)\<close>, lines 248-266. The result carries the messages logged as
  errors; \<open>None\<close> is the bare \<^verbatim>\<open>return\<close>. The set \<open>mc\<close> is the list of distinct
  sequence ids.
\<close>

definition merge_ranges ::
  "(string \<Rightarrow> error + range) \<Rightarrow> bedline list
     \<Rightarrow> error + (string list \<times> (string \<times> int \<times> int \<times> string) option)" where
  "merge_ranges range_parse beds =
     (let m = map accn beds in
      case parse_all range_parse m of
        Inl e \<Rightarrow> Inl e
      | Inr mr \<Rightarrow>
        (case remdups (map rseqid mr) of
           [mc] \<Rightarrow>
             (case py_min (map rstart mr) of
                Inl e \<Rightarrow> Inl e
              | Inr ms \<Rightarrow>
                (case py_max (map rend mr) of
                   Inl e \<Rightarrow> Inl e
                 | Inr me \<Rightarrow>
                     (let neg_strands = int (length (filter (\<lambda>x. strand x = ''-'') beds));
                          pos_strands = int (length beds) - neg_strands;
                          strand' = (if neg_strands > pos_strands then ''-'' else ''+'')
                      in Inr ([], Some (mc, ms, me, strand')))))
         | _ \<Rightarrow> Inr ([''Multiple seqid found in pocket. Aborted.''], None)))"

text \<open>
  \<^verbatim>\<open>prepare\<close>, lines 292-303: of the records with the same interval, the backbone
  ones are kept when both kinds are present.
\<close>

definition is_bb :: "string \<Rightarrow> bedline \<Rightarrow> bool" where
  "is_bb bb x = startswith (accn x) bb"

definition uniq_group :: "string \<Rightarrow> bedline list \<Rightarrow> bedline list" where
  "uniq_group bb sb =
     (let backbone = filter (is_bb bb) sb;
          others = filter (\<lambda>x. \<not> is_bb bb x) sb
      in if backbone \<noteq> [] \<and> others \<noteq> [] then backbone else sb)"

definition uniqbed :: "string \<Rightarrow> bedline list \<Rightarrow> bedline list" where
  "uniqbed bb bed =
     concat (map (\<lambda>(k, sb). uniq_group bb sb) (groupby (\<lambda>x. (seqid x, start x, end_pos x)) bed))"

text \<open>
  Line 310: \<^verbatim>\<open>key = lambda x: (is_bb, range_parse(x.accn).seqid)\<close>. The first
  component is the function \<^verbatim>\<open>is_bb\<close> itself, not its value at \<open>x\<close>: one and the same
  object for every record, written \<open>Is_bb\<close>.
\<close>

datatype callable = Is_bb

definition condense_key :: "(string \<Rightarrow> error + range) \<Rightarrow> bedline \<Rightarrow> error + (callable \<times> string)" where
  "condense_key range_parse x =
     (case range_parse (accn x) of Inl e \<Rightarrow> Inl e | Inr r \<Rightarrow> Inr (Is_bb, rseqid r))"

text \<open>The claims' wording, for comparison: the sequence id parsed from a record's
  accession (empty when the accession does not parse).\<close>

definition parsed_seqid :: "(string \<Rightarrow> error + range) \<Rightarrow> bedline \<Rightarrow> string" where
  "parsed_seqid range_parse x = (case range_parse (accn x) of Inl e \<Rightarrow> [] | Inr r \<Rightarrow> rseqid r)"

text \<open>
  Lines 322-329, the body of the loop over the groups: unpacking the result of
  \<^verbatim>\<open>merge_ranges\<close> into four names raises TypeError when it is \<open>None\<close>;
  \<^verbatim>\<open>sizes[chr]\<close> raises KeyError. A patcher holds what the two output lines are
  formatted from.
\<close>

definition Flank :: int where
  "Flank = 10000"

record patcher =
  p_chr :: string
  p_start :: int
  p_end :: int
  p_strand :: string

definition patch ::
  "(string \<Rightarrow> error + range) \<Rightarrow> (string \<rightharpoonup> int) \<Rightarrow> bedline list \<Rightarrow> error + patcher" where
  "patch range_parse sizes sb =
     (case merge_ranges range_parse sb of
        Inl e \<Rightarrow> Inl e
      | Inr (logged, None) \<Rightarrow> Inl TypeError
      | Inr (logged, Some (chr, start', end', strand')) \<Rightarrow>
          (case sizes chr of
             None \<Rightarrow> Inl KeyError
           | Some size' \<Rightarrow>
               Inr \<lparr>p_chr = chr, p_start = max (start' - Flank) 0,
                    p_end = min (end' + Flank) size', p_strand = strand'\<rparr>))"

definition bed_line :: "patcher \<Rightarrow> string" where
  "bed_line p = join TAB [p_chr p, str_int (p_start p), str_int (p_end p)]"

definition tpf_line :: "string \<Rightarrow> patcher \<Rightarrow> string" where
  "tpf_line pf p =
     join TAB [p_chr p @ '':'' @ str_int (p_start p) @ ''-'' @ str_int (p_end p), pf, p_strand p]"

text \<open>Lines 320-329: the loop over the groups of the unique records; the state is the
  patchers written so far.\<close>

definition patch_step ::
  "(string \<Rightarrow> error + range) \<Rightarrow> (string \<rightharpoonup> int) \<Rightarrow> callable \<times> string \<Rightarrow> bedline list
     \<Rightarrow> patcher list \<Rightarrow> error + patcher list" where
  "patch_step range_parse sizes k sb out =
     (case patch range_parse sizes sb of Inl e \<Rightarrow> Inl e | Inr p \<Rightarrow> Inr (out @ [p]))"

definition condense ::
  "(string \<Rightarrow> error + range) \<Rightarrow> (string \<rightharpoonup> int) \<Rightarrow> bedline list \<Rightarrow> error + patcher list" where
  "condense range_parse sizes bed =
     for_groupby (condense_key range_parse) (patch_step range_parse sizes) bed []"

text \<open>
  \<^verbatim>\<open>prepare\<close> from the loaded BED lines on: the lines of the patchers' BED file and of
  the tiling path file, which starts with the telomere line.
\<close>

definition prepare ::
  "string \<Rightarrow> (string \<Rightarrow> error + range) \<Rightarrow> (string \<rightharpoonup> int) \<Rightarrow> string \<Rightarrow> bedline list
     \<Rightarrow> error + (string list \<times> string list)" where
  "prepare bb range_parse sizes pf bed =
     (case condense range_parse sizes (uniqbed bb bed) of
        Inl e \<Rightarrow> Inl e
      | Inr ps \<Rightarrow> Inr (map bed_line ps, join TAB [''telomere'', pf, ''na''] # map (tpf_line pf) ps))"

text \<open>
  Inputs used to evaluate the definitions. \<open>example_range_parse\<close> stands in for
  \<^verbatim>\<open>range_parse\<close> on three accessions written \<open>seqid:start-end\<close>, the form in which
  \<^verbatim>\<open>prepare\<close> itself writes the ids of its patchers (line 327); it raises on any other
  text. The BED lines are alignments of those ranges to an optical map \<open>chr1\<close>.
\<close>

definition example_range_parse :: "string \<Rightarrow> error + range" where
  "example_range_parse s =
     (case map_of
        [(''Scaffold1:100-200'', \<lparr>rseqid = ''Scaffold1'', rstart = 100, rend = 200\<rparr>),
         (''Scaffold1:300-400'', \<lparr>rseqid = ''Scaffold1'', rstart = 300, rend = 400\<rparr>),
         (''contig7:50-80'', \<lparr>rseqid = ''contig7'', rstart = 50, rend = 80\<rparr>)] s of
        None \<Rightarrow> Inl ValueError
      | Some r \<Rightarrow> Inr r)"

definition example_sizes :: "string \<rightharpoonup> int" where
  "example_sizes = map_of [(''Scaffold1'', 5000), (''contig7'', 90)]"

definition bed_minus :: bedline where
  "bed_minus = \<lparr>seqid = ''chr1'', start = 1000, end_pos = 5000,
                 accn = ''Scaffold1:100-200'', strand = ''-''\<rparr>"

definition bed_plus :: bedline where
  "bed_plus = \<lparr>seqid = ''chr1'', start = 6000, end_pos = 9000,
                accn = ''Scaffold1:300-400'', strand = ''+''\<rparr>"

definition bed_dot :: bedline where
  "bed_dot = \<lparr>seqid = ''chr1'', start = 1000, end_pos = 5000,
               accn = ''Scaffold1:100-200'', strand = ''.''\<rparr>"

definition bed_other :: bedline where
  "bed_other = \<lparr>seqid = ''chr1'', start = 9500, end_pos = 9900,
                 accn = ''contig7:50-80'', strand = ''+''\<rparr>"

section \<open>Properties of the breakpoint detector\<close>




text \<open>
  An empty genotype row has no positions to take a fraction of; on one scaffold the code
  then labels the pair OK whatever \<open>maxdiff\<close> is.
\<close>

lemma check_markers_no_genotypes:
  assumes "split_on CHR ''.'' aid = [scf, apos]"
      and "split_on CHR ''.'' bid = [scf, bpos]"
  shows "check_markers [aid] (bid # bgeno) maxdiff = Inr (OK, None)"
  using assms by (simp add: check_markers_def hamming_distance_def)



section \<open>Properties of the singleton filter\<close>

lemma remove_singletons_retained:
  "remove_singletons data diff js (good, ns) = Inr (good', ns') \<Longrightarrow>
     good' = good @ map ((!) data) (filter (\<lambda>i. \<not> flanked_by_breaks data diff i) js)
     \<and> ns' = ns + length (filter (flanked_by_breaks data diff) js)"
proof (induction js arbitrary: good ns)
  case Nil
  then show ?case by simp
next
  case (Cons i js)
  from Cons.prems obtain ll lr rl rr where
    left: "check_markers (data ! (i - 1)) (data ! i) diff = Inr (ll, lr)" and
    right: "check_markers (data ! i) (data ! (i + 1)) diff = Inr (rl, rr)"
    by (auto simp: Let_def split: sum.splits prod.splits)
  show ?case
  proof (cases "ll = BREAK \<and> rl = BREAK")
    case True
    then have fl: "flanked_by_breaks data diff i"
      using left right by (simp add: flanked_by_breaks_def label_of_def)
    from Cons.prems True left right
    have "remove_singletons data diff js (good, ns + 1) = Inr (good', ns')"
      by (simp add: Let_def)
    from Cons.IH [OF this] fl show ?thesis by simp
  next
    case False
    then have fl: "\<not> flanked_by_breaks data diff i"
      using left right by (auto simp: flanked_by_breaks_def label_of_def)
    from Cons.prems False left right
    have "remove_singletons data diff js (good @ [data ! i], ns) = Inr (good', ns')"
      by (auto simp: Let_def)
    from Cons.IH [OF this] fl show ?thesis by simp
  qed
qed

lemma report_breaks_lines:
  "report_breaks diff ps = Inr out \<Longrightarrow> out = concat (map (break_line diff) ps)"
proof (induction ps arbitrary: out)
  case Nil
  then show ?case by simp
next
  case (Cons p ps)
  obtain a b where p: "p = (a, b)" by (cases p)
  from Cons.prems p obtain l rr where cm: "check_markers a b diff = Inr (l, rr)"
    by (auto split: sum.splits prod.splits)
  show ?case
  proof (cases "l = BREAK")
    case True
    with Cons.prems p cm obtain scf apos bpos out' where
      rr: "rr = Some (scf, apos, bpos)" and
      rest: "report_breaks diff ps = Inr out'" and
      out: "out = join TAB [scf, apos, bpos] # out'"
      by (auto split: option.splits sum.splits)
    from Cons.IH [OF rest] show ?thesis
      using p cm True rr out by (simp add: break_line_def)
  next
    case False
    with Cons.prems p cm have rest: "report_breaks diff ps = Inr out"
      by simp
    from Cons.IH [OF rest] show ?thesis
      using p cm False by (cases l; cases rr) (auto simp: break_line_def)
  qed
qed

text \<open>On rows the detector can read, neither loop of \<^verbatim>\<open>mapbreaks\<close> raises.\<close>

lemma check_markers_returns:
  assumes "marker_row a" and "marker_row b"
  shows "\<exists>l rr. check_markers a b diff = Inr (l, rr) \<and> (l = BREAK \<longrightarrow> rr \<noteq> None)"
proof -
  from assms(1) obtain aid ageno ascf apos where
    a: "a = aid # ageno" "split_on CHR ''.'' aid = [ascf, apos]"
    by (auto simp: marker_row_def length_Suc_conv numeral_2_eq_2 split: list.splits)
  from assms(2) obtain bid bgeno bscf bpos where
    b: "b = bid # bgeno" "split_on CHR ''.'' bid = [bscf, bpos]"
    by (auto simp: marker_row_def length_Suc_conv numeral_2_eq_2 split: list.splits)
  show ?thesis
    using a b by (simp add: check_markers_def Let_def)
qed

lemma remove_singletons_returns:
  assumes "\<forall>i \<in> set js. marker_row (data ! (i - 1)) \<and> marker_row (data ! i) \<and> marker_row (data ! (i + 1))"
  shows "\<exists>r. remove_singletons data diff js st = Inr r"
  using assms
proof (induction js arbitrary: st)
  case Nil
  then show ?case by (cases st) simp
next
  case (Cons i js)
  obtain good ns where st: "st = (good, ns)" by (cases st)
  from Cons.prems obtain ll lr where
    left: "check_markers (data ! (i - 1)) (data ! i) diff = Inr (ll, lr)"
    using check_markers_returns [of "data ! (i - 1)" "data ! i" diff] by auto
  from Cons.prems obtain rl rr where
    right: "check_markers (data ! i) (data ! (i + 1)) diff = Inr (rl, rr)"
    using check_markers_returns [of "data ! i" "data ! (i + 1)" diff] by auto
  from Cons.prems have rest: "\<forall>i \<in> set js. marker_row (data ! (i - 1)) \<and> marker_row (data ! i) \<and> marker_row (data ! (i + 1))"
    by simp
  show ?case
    using st left right Cons.IH [OF rest] by (simp add: Let_def)
qed

lemma report_breaks_returns:
  assumes "\<forall>(a, b) \<in> set ps. marker_row a \<and> marker_row b"
  shows "\<exists>out. report_breaks diff ps = Inr out"
  using assms
proof (induction ps)
  case Nil
  then show ?case by simp
next
  case (Cons p ps)
  obtain a b where p: "p = (a, b)" by (cases p)
  from Cons.prems p obtain l rr where
    cm: "check_markers a b diff = Inr (l, rr)" "l = BREAK \<longrightarrow> rr \<noteq> None"
    using check_markers_returns [of a b diff] by auto
  from Cons.prems Cons.IH obtain out where rest: "report_breaks diff ps = Inr out"
    by auto
  show ?case
    using p cm rest by (cases rr) auto
qed

lemma in_set_tl: "x \<in> set (tl xs) \<Longrightarrow> x \<in> set xs"
  by (cases xs) auto

lemma interior_rows:
  assumes "i \<in> set [1..<length data - 1]"
  shows "i - 1 < length data \<and> i < length data \<and> i + 1 < length data"
  using assms by auto

text \<open>
  \<^verbatim>\<open>mapbreaks\<close> returns on every list of readable marker rows: the index loop stays
  within the rows, and the report loop only meets rows the first loop has read.
\<close>

lemma mapbreaks_data_returns:
  assumes "\<forall>r \<in> set data. marker_row r"
  shows "\<exists>ns out. mapbreaks_data data diff = Inr (ns, out)"
proof -
  have "\<forall>i \<in> set [1..<length data - 1].
          marker_row (data ! (i - 1)) \<and> marker_row (data ! i) \<and> marker_row (data ! (i + 1))"
    using assms interior_rows [of _ data] by (metis nth_mem)
  from remove_singletons_returns [OF this, of diff "([], 0)"]
  obtain good ns where
    rs: "remove_singletons data diff [1..<length data - 1] ([], 0) = Inr (good, ns)"
    by (metis surj_pair)
  from remove_singletons_retained [OF rs]
  have good: "good = map ((!) data) (retained_positions data diff)"
    by (simp add: retained_positions_def)
  have "set good \<subseteq> set data"
    unfolding good retained_positions_def by auto
  then have "\<forall>(a, b) \<in> set (pairwise good). marker_row a \<and> marker_row b"
    using assms unfolding pairwise_def
    by (auto dest: set_zip_leftD set_zip_rightD in_set_tl)
  from report_breaks_returns [OF this, of diff] obtain out where
    "report_breaks diff (pairwise good) = Inr out" by blast
  with rs show ?thesis
    by (simp add: mapbreaks_data_def)
qed

text \<open>
  Claim C4. In \<^verbatim>\<open>mapbreaks\<close> the retained sequence \<open>good\<close> is the rows at the interior
  positions that are not flanked by BREAK on both sides, in input order: an interior
  marker whose comparison with its left neighbour and whose comparison with its right
  neighbour are both BREAK is not a retained position (and is counted as a singleton),
  every other interior marker is. The printed breakpoints are the lines of the
  consecutive pairs of \<open>good\<close> labelled BREAK, and of nothing else.
\<close>

theorem mapbreaks_drops_singletons:
  assumes "mapbreaks_data data diff = Inr (ns, out)"
  shows "remove_singletons data diff [1..<length data - 1] ([], 0)
           = Inr (map ((!) data) (retained_positions data diff), ns)
       \<and> (\<forall>i. 0 < i \<and> i + 1 < length data \<longrightarrow>
              (i \<in> set (retained_positions data diff) \<longleftrightarrow> \<not> flanked_by_breaks data diff i))
       \<and> ns = length (filter (flanked_by_breaks data diff) [1..<length data - 1])
       \<and> out = concat (map (break_line diff)
                  (pairwise (map ((!) data) (retained_positions data diff))))"
proof -
  from assms obtain good where
    rs: "remove_singletons data diff [1..<length data - 1] ([], 0) = Inr (good, ns)" and
    rb: "report_breaks diff (pairwise good) = Inr out"
    by (auto simp: mapbreaks_data_def split: sum.splits prod.splits)
  from remove_singletons_retained [OF rs]
  have good: "good = map ((!) data) (retained_positions data diff)"
    and ns: "ns = length (filter (flanked_by_breaks data diff) [1..<length data - 1])"
    by (simp_all add: retained_positions_def)
  have pos: "\<forall>i. 0 < i \<and> i + 1 < length data \<longrightarrow>
              (i \<in> set (retained_positions data diff) \<longleftrightarrow> \<not> flanked_by_breaks data diff i)"
    by (auto simp: retained_positions_def)
  from report_breaks_lines [OF rb] rs good ns pos show ?thesis
    by simp
qed

theorem mapbreaks_drops_singletons_witness:
  "mapbreaks_data mstmap_example (1 / 10) = Inr (1, [join TAB [''s1'', ''20'', ''40'']])
   \<and> flanked_by_breaks mstmap_example (1 / 10) 2
   \<and> 2 \<notin> set (retained_positions mstmap_example (1 / 10))
   \<and> 1 \<in> set (retained_positions mstmap_example (1 / 10))
   \<and> remove_singletons mstmap_example (1 / 10) [1..<length mstmap_example - 1] ([], 0)
       = Inr ([mstmap_example ! 1, mstmap_example ! 3], 1)"
proof -
  have idx: "[1..<length mstmap_example - 1] = [1, 2, 3]"
    by (simp add: mstmap_example_def upt_rec)
  have run: "mapbreaks_data mstmap_example (1 / 10) = Inr (1, [join TAB [''s1'', ''20'', ''40'']])"
    by (simp add: mapbreaks_data_def idx mstmap_example_def check_markers_def
        hamming_distance_def pairwise_def Let_def)
  have fl2: "flanked_by_breaks mstmap_example (1 / 10) 2"
    by (simp add: flanked_by_breaks_def label_of_def mstmap_example_def check_markers_def
        hamming_distance_def)
  have fl1: "\<not> flanked_by_breaks mstmap_example (1 / 10) 1"
    by (simp add: flanked_by_breaks_def label_of_def mstmap_example_def check_markers_def
        hamming_distance_def)
  have fl3: "\<not> flanked_by_breaks mstmap_example (1 / 10) 3"
    by (simp add: flanked_by_breaks_def label_of_def mstmap_example_def check_markers_def
        hamming_distance_def)
  have len: "length mstmap_example = 5"
    by (simp add: mstmap_example_def)
  have fl1': "\<not> flanked_by_breaks mstmap_example (1 / 10) (Suc 0)"
    using fl1 by simp
  have ret: "retained_positions mstmap_example (1 / 10) = [1, 3]"
    unfolding retained_positions_def idx by (simp add: fl1' fl2 fl3)
  note inst = mapbreaks_drops_singletons [OF run]
  from inst have rs: "remove_singletons mstmap_example (1 / 10) [1..<length mstmap_example - 1] ([], 0)
       = Inr ([mstmap_example ! 1, mstmap_example ! 3], 1)"
    by (simp add: ret)
  from inst have "2 \<in> set (retained_positions mstmap_example (1 / 10))
       \<longleftrightarrow> \<not> flanked_by_breaks mstmap_example (1 / 10) 2"
    using len by simp
  with fl2 have out2: "2 \<notin> set (retained_positions mstmap_example (1 / 10))"
    by simp
  from inst have "1 \<in> set (retained_positions mstmap_example (1 / 10))
       \<longleftrightarrow> \<not> flanked_by_breaks mstmap_example (1 / 10) 1"
    using len by simp
  with fl1 have in1: "1 \<in> set (retained_positions mstmap_example (1 / 10))"
    by blast
  show ?thesis
    using run fl2 out2 in1 rs by (intro conjI)
qed

text \<open>
  Claim C10. The rows \<^verbatim>\<open>mapbreaks\<close> retains are rows at interior positions only:
  position 0 (the first row) and position \<open>length data - 1\<close> (the last row) are never
  among the retained positions, whatever the genotypes and labels. When no row occurs
  twice, the first and the last row are therefore not in \<open>good\<close> at all.
\<close>

theorem mapbreaks_never_retains_ends:
  assumes "remove_singletons data diff [1..<length data - 1] ([], 0) = Inr (good, ns)"
  shows "good = map ((!) data) (retained_positions data diff)
       \<and> (\<forall>i \<in> set (retained_positions data diff). 0 < i \<and> i < length data - 1)
       \<and> 0 \<notin> set (retained_positions data diff)
       \<and> length data - 1 \<notin> set (retained_positions data diff)
       \<and> (distinct data \<and> data \<noteq> [] \<longrightarrow> hd data \<notin> set good \<and> last data \<notin> set good)"
proof -
  from remove_singletons_retained [OF assms]
  have good: "good = map ((!) data) (retained_positions data diff)"
    by (simp add: retained_positions_def)
  have inner: "\<forall>i \<in> set (retained_positions data diff). 0 < i \<and> i < length data - 1"
    by (auto simp: retained_positions_def)
  then have ends: "0 \<notin> set (retained_positions data diff)"
    "length data - 1 \<notin> set (retained_positions data diff)"
    by auto
  have "hd data \<notin> set good \<and> last data \<notin> set good" if d: "distinct data" and ne: "data \<noteq> []"
  proof
    show "hd data \<notin> set good"
    proof
      assume "hd data \<in> set good"
      then obtain i where i: "i \<in> set (retained_positions data diff)" "data ! i = hd data"
        unfolding good by auto
      with inner have "0 < i" "i < length data" by auto
      with d i(2) ne show False
        by (simp add: hd_conv_nth nth_eq_iff_index_eq)
    qed
    show "last data \<notin> set good"
    proof
      assume "last data \<in> set good"
      then obtain i where i: "i \<in> set (retained_positions data diff)" "data ! i = last data"
        unfolding good by auto
      with inner have "i < length data - 1" by auto
      with d i(2) ne show False
        by (simp add: last_conv_nth nth_eq_iff_index_eq)
    qed
  qed
  with good inner ends show ?thesis by blast
qed

theorem mapbreaks_never_retains_ends_witness:
  "remove_singletons mstmap_example (1 / 10) [1..<length mstmap_example - 1] ([], 0)
     = Inr ([[''s1.20'', ''A'', ''A'', ''A'', ''A''], [''s1.40'', ''B'', ''B'', ''A'', ''A'']], 1)
   \<and> distinct mstmap_example
   \<and> hd mstmap_example \<notin> set [[''s1.20'', ''A'', ''A'', ''A'', ''A''], [''s1.40'', ''B'', ''B'', ''A'', ''A'']]
   \<and> last mstmap_example \<notin> set [[''s1.20'', ''A'', ''A'', ''A'', ''A''], [''s1.40'', ''B'', ''B'', ''A'', ''A'']]
   \<and> 0 \<notin> set (retained_positions mstmap_example (1 / 10))
   \<and> 4 \<notin> set (retained_positions mstmap_example (1 / 10))"
proof -
  have idx: "[1..<length mstmap_example - 1] = [1, 2, 3]"
    by (simp add: mstmap_example_def upt_rec)
  have run: "remove_singletons mstmap_example (1 / 10) [1..<length mstmap_example - 1] ([], 0)
     = Inr ([[''s1.20'', ''A'', ''A'', ''A'', ''A''], [''s1.40'', ''B'', ''B'', ''A'', ''A'']], 1)"
    by (simp add: idx mstmap_example_def check_markers_def hamming_distance_def Let_def)
  have d: "distinct mstmap_example"
    by (simp add: mstmap_example_def)
  have ne: "mstmap_example \<noteq> []"
    by (simp add: mstmap_example_def)
  have len: "length mstmap_example - 1 = 4"
    by (simp add: mstmap_example_def)
  note inst = mapbreaks_never_retains_ends [OF run]
  from inst d ne have
    "hd mstmap_example \<notin> set [[''s1.20'', ''A'', ''A'', ''A'', ''A''], [''s1.40'', ''B'', ''B'', ''A'', ''A'']]"
    "last mstmap_example \<notin> set [[''s1.20'', ''A'', ''A'', ''A'', ''A''], [''s1.40'', ''B'', ''B'', ''A'', ''A'']]"
    by blast+
  moreover from inst len have "0 \<notin> set (retained_positions mstmap_example (1 / 10))"
    "4 \<notin> set (retained_positions mstmap_example (1 / 10))"
    by auto
  ultimately show ?thesis
    using run d by (intro conjI)
qed

section \<open>Properties of the gap selection in \<^verbatim>\<open>refine\<close>\<close>

lemma py_max_Max: "py_max (x # xs) = Inr (Max (set (x # xs)))"
  for x :: "'a::linorder"
proof -
  have "foldl (\<lambda>m y. if y > m then y else m) a ys = fold max ys a" for a :: 'a and ys
  proof (induction ys arbitrary: a)
    case Nil
    then show ?case by simp
  next
    case (Cons y ys)
    have "(if y > a then y else a) = max y a" by (auto simp: max_def)
    with Cons show ?case by simp
  qed
  then show ?thesis
    using Max.set_eq_fold [of x xs] by simp
qed

lemma py_min_Min: "py_min (x # xs) = Inr (Min (set (x # xs)))"
  for x :: "'a::linorder"
proof -
  have "foldl (\<lambda>m y. if y < m then y else m) a ys = fold min ys a" for a :: 'a and ys
  proof (induction ys arbitrary: a)
    case Nil
    then show ?case by simp
  next
    case (Cons y ys)
    have "(if y < a then y else a) = min y a" by (auto simp: min_def)
    with Cons show ?case by simp
  qed
  then show ?thesis
    using Min.set_eq_fold [of x xs] by simp
qed

lemma sized_all_map:
  "\<forall>x \<in> set gaps. \<exists>n. sized x = Inr (n, x) \<Longrightarrow>
     sized_all gaps = Inr (map (\<lambda>x. (gap_size x, x)) gaps)"
proof (induction gaps)
  case Nil
  then show ?case by simp
next
  case (Cons g gaps)
  then obtain n where n: "sized g = Inr (n, g)" by auto
  then have "gap_size g = n" by (simp add: gap_size_def)
  with Cons n show ?case by simp
qed

lemma sized_self: "sized x = Inr (n, y) \<Longrightarrow> y = x"
  by (auto simp: sized_def split: sum.splits)

text \<open>
  Claim C3, as amended. For a breakpoint region with overlapping gaps whose last
  columns all read as integers, \<^verbatim>\<open>refine\<close> selects a gap of the group with the
  maximum size and writes its fields from the fourth on. Among gaps with that same
  size the selected one is the greatest row in the lexicographic order of the rows'
  text fields, wherever it stands in the input.
\<close>

theorem refine_selects_largest_gap:
  assumes "\<forall>x \<in> set gaps. \<exists>n. sized x = Inr (n, x)"
      and "gaps \<noteq> []"
      and "no_gap gaps = Inr False"
  shows "\<exists>g. largest_gap gaps = Inr g
           \<and> g \<in> set gaps
           \<and> (\<forall>x \<in> set gaps. gap_size x \<le> gap_size g)
           \<and> (\<forall>x \<in> set gaps. gap_size x = gap_size g \<longrightarrow> x \<le> g)
           \<and> refine_groups ((b, gaps) # rest) (nogaps, largestgaps)
               = refine_groups rest (nogaps, largestgaps @ [join TAB (drop 3 g)])"
proof -
  let ?ps = "map (\<lambda>x. (gap_size x, x)) gaps"
  have sz: "sized_all gaps = Inr ?ps"
    using assms(1) by (rule sized_all_map)
  from assms(2) obtain p ps where ps: "?ps = p # ps"
    by (cases gaps) auto
  define m where "m = Max (set ?ps)"
  have lg: "largest_gap gaps = Inr (snd m)"
    using sz ps py_max_Max [of p ps] by (simp add: largest_gap_def m_def)
  have fin: "finite (set ?ps)" "set ?ps \<noteq> {}"
    using ps by auto
  have m_in: "m \<in> set ?ps"
    unfolding m_def using fin by (rule Max_in)
  then have m_eq: "m = (gap_size (snd m), snd m)" and g_in: "snd m \<in> set gaps"
    by auto
  have le: "(gap_size x, x) \<le> m" if "x \<in> set gaps" for x
    unfolding m_def using that by (intro Max_ge) auto
  have size_le: "\<forall>x \<in> set gaps. gap_size x \<le> gap_size (snd m)"
  proof
    fix x assume "x \<in> set gaps"
    from le [OF this] m_eq have "(gap_size x, x) \<le> (gap_size (snd m), snd m)" by simp
    then show "gap_size x \<le> gap_size (snd m)" by auto
  qed
  have row_le: "\<forall>x \<in> set gaps. gap_size x = gap_size (snd m) \<longrightarrow> x \<le> snd m"
  proof (intro ballI impI)
    fix x assume "x \<in> set gaps" and eq: "gap_size x = gap_size (snd m)"
    from le [OF this(1)] m_eq have "(gap_size x, x) \<le> (gap_size (snd m), snd m)" by simp
    with eq show "x \<le> snd m" by auto
  qed
  have step: "refine_groups ((b, gaps) # rest) (nogaps, largestgaps)
               = refine_groups rest (nogaps, largestgaps @ [join TAB (drop 3 (snd m))])"
    using assms(3) lg by simp
  from lg g_in size_le row_le step show ?thesis by blast
qed

theorem refine_selects_largest_gap_witness:
  "no_gap tied_gaps = Inr False
   \<and> sized (tied_gaps ! 0) = Inr (10, tied_gaps ! 0)
   \<and> sized (tied_gaps ! 1) = Inr (10, tied_gaps ! 1)
   \<and> (\<exists>g. largest_gap tied_gaps = Inr g \<and> g \<in> set tied_gaps
          \<and> refine_groups [(take 3 (hd tied_gaps), tied_gaps)] ([], [])
              = Inr ([], [join TAB (drop 3 g)]))"
proof -
  have s0: "sized (tied_gaps ! 0) = Inr (10, tied_gaps ! 0)"
    by (simp add: tied_gaps_def sized_def py_last_def py_int_def digit_val_def)
  have s1: "sized (tied_gaps ! 1) = Inr (10, tied_gaps ! 1)"
    by (simp add: tied_gaps_def sized_def py_last_def py_int_def digit_val_def)
  have all: "\<forall>x \<in> set tied_gaps. \<exists>n. sized x = Inr (n, x)"
    using s0 s1 by (simp add: tied_gaps_def)
  have ne: "tied_gaps \<noteq> []"
    by (simp add: tied_gaps_def)
  have ng: "no_gap tied_gaps = Inr False"
    by (simp add: tied_gaps_def no_gap_def)
  from refine_selects_largest_gap [OF all ne ng, of "take 3 (hd tied_gaps)" "[]" "[]" "[]"]
  have "\<exists>g. largest_gap tied_gaps = Inr g \<and> g \<in> set tied_gaps
          \<and> refine_groups [(take 3 (hd tied_gaps), tied_gaps)] ([], [])
              = Inr ([], [join TAB (drop 3 g)])"
    by auto
  with ng s0 s1 show ?thesis by blast
qed

text \<open>
  The claim as stated fails: of two overlapping gaps with the same size 10, the one
  selected is the first in input order, its row being the greater one.
\<close>

theorem refine_tie_counterexample:
  "largest_gap
     [[''chr1'', ''90'', ''200'', ''chr1'', ''99'', ''109'', ''10''],
      [''chr1'', ''90'', ''200'', ''chr1'', ''150'', ''160'', ''10'']]
     = Inr [''chr1'', ''90'', ''200'', ''chr1'', ''99'', ''109'', ''10'']
   \<and> gap_size [''chr1'', ''90'', ''200'', ''chr1'', ''99'', ''109'', ''10''] = 10
   \<and> gap_size [''chr1'', ''90'', ''200'', ''chr1'', ''150'', ''160'', ''10''] = 10
   \<and> largest_gap
     [[''chr1'', ''90'', ''200'', ''chr1'', ''99'', ''109'', ''10''],
      [''chr1'', ''90'', ''200'', ''chr1'', ''150'', ''160'', ''10'']]
     \<noteq> Inr [''chr1'', ''90'', ''200'', ''chr1'', ''150'', ''160'', ''10'']"
  by (simp add: largest_gap_def sized_def py_last_def py_int_def digit_val_def gap_size_def)

section \<open>Properties of \<^verbatim>\<open>merge_ranges\<close>\<close>

lemma remdups_single:
  assumes "set xs = {a}"
  shows "remdups xs = [a]"
proof -
  have "length (remdups xs) = 1"
    using assms by (simp add: length_remdups_card_conv)
  then obtain y where y: "remdups xs = [y]"
    by (cases "remdups xs") auto
  then have "set xs = {y}"
    using set_remdups [of xs] by simp
  with assms y show ?thesis by simp
qed


lemma positive_strands:
  "int (length beds) - int (length (filter (\<lambda>x. strand x = ''-'') beds))
     = int (length (filter (\<lambda>x. strand x \<noteq> ''-'') beds))"
  using sum_length_filter_compl [of "\<lambda>x. strand x = ''-''" beds] by simp

lemma merge_ranges_one_seqid:
  assumes "parse_all range_parse (map accn beds) = Inr mr"
      and "set (map rseqid mr) = {mc}"
  shows "merge_ranges range_parse beds =
           Inr ([], Some (mc, Min (set (map rstart mr)), Max (set (map rend mr)),
                          if length (filter (\<lambda>x. strand x = ''-'') beds)
                               > length (filter (\<lambda>x. strand x \<noteq> ''-'') beds)
                          then ''-'' else ''+''))"
proof -
  from assms(2) obtain r rs where mr: "mr = r # rs"
    by (cases mr) auto
  have rd: "remdups (map rseqid mr) = [mc]"
    using assms(2) by (rule remdups_single)
  have mn: "py_min (map rstart mr) = Inr (Min (set (map rstart mr)))"
    unfolding mr using py_min_Min [of "rstart r" "map rstart rs"] by simp
  have mx: "py_max (map rend mr) = Inr (Max (set (map rend mr)))"
    unfolding mr using py_max_Max [of "rend r" "map rend rs"] by simp
  show ?thesis
    unfolding merge_ranges_def Let_def
    by (simp only: assms(1) rd mn mx positive_strands sum.case list.case of_nat_less_iff)
qed

text \<open>
  Claim C2, as amended. When the accessions of a group parse to ranges with one
  sequence id, \<^verbatim>\<open>merge_ranges\<close> returns that id, the minimum start and the maximum end
  over the parsed ranges, and a strand by majority vote: \<open>-\<close> when strictly more
  records have the strand \<open>-\<close> than have any other strand, and \<open>+\<close> otherwise, so
  also on an exact tie.
\<close>

theorem merge_ranges_min_max_majority:
  assumes "parse_all range_parse (map accn beds) = Inr mr"
      and "set (map rseqid mr) = {mc}"
  shows "\<exists>ms me str. merge_ranges range_parse beds = Inr ([], Some (mc, ms, me, str))
           \<and> ms \<in> set (map rstart mr) \<and> (\<forall>r \<in> set mr. ms \<le> rstart r)
           \<and> me \<in> set (map rend mr) \<and> (\<forall>r \<in> set mr. rend r \<le> me)
           \<and> (str = ''-'' \<longleftrightarrow>
                 length (filter (\<lambda>x. strand x = ''-'') beds)
                   > length (filter (\<lambda>x. strand x \<noteq> ''-'') beds))
           \<and> (str = ''+'' \<longleftrightarrow>
                 length (filter (\<lambda>x. strand x = ''-'') beds)
                   \<le> length (filter (\<lambda>x. strand x \<noteq> ''-'') beds))"
proof -
  from assms(2) have ne: "set (map rstart mr) \<noteq> {}" "set (map rend mr) \<noteq> {}"
    by auto
  have "Min (set (map rstart mr)) \<in> set (map rstart mr)"
    using ne by (intro Min_in) auto
  moreover have "\<forall>r \<in> set mr. Min (set (map rstart mr)) \<le> rstart r"
    by (auto intro: Min_le)
  moreover have "Max (set (map rend mr)) \<in> set (map rend mr)"
    using ne by (intro Max_in) auto
  moreover have "\<forall>r \<in> set mr. rend r \<le> Max (set (map rend mr))"
    by (auto intro: Max_ge)
  ultimately show ?thesis
    using merge_ranges_one_seqid [OF assms] by (auto simp: not_less)
qed

theorem merge_ranges_min_max_majority_witness:
  "parse_all example_range_parse (map accn [bed_minus, bed_minus, bed_plus])
     = Inr [\<lparr>rseqid = ''Scaffold1'', rstart = 100, rend = 200\<rparr>,
            \<lparr>rseqid = ''Scaffold1'', rstart = 100, rend = 200\<rparr>,
            \<lparr>rseqid = ''Scaffold1'', rstart = 300, rend = 400\<rparr>]
   \<and> merge_ranges example_range_parse [bed_minus, bed_minus, bed_plus]
     = Inr ([], Some (''Scaffold1'', 100, 400, ''-''))"
proof -
  let ?mr = "[\<lparr>rseqid = ''Scaffold1'', rstart = 100, rend = 200\<rparr>,
              \<lparr>rseqid = ''Scaffold1'', rstart = 100, rend = 200\<rparr>,
              \<lparr>rseqid = ''Scaffold1'', rstart = 300, rend = 400\<rparr>]"
  have p: "parse_all example_range_parse (map accn [bed_minus, bed_minus, bed_plus]) = Inr ?mr"
    by (simp add: example_range_parse_def bed_minus_def bed_plus_def)
  have s: "set (map rseqid ?mr) = {''Scaffold1''}"
    by simp
  from merge_ranges_min_max_majority [OF p s] obtain ms me str where
    res: "merge_ranges example_range_parse [bed_minus, bed_minus, bed_plus]
            = Inr ([], Some (''Scaffold1'', ms, me, str))" and
    ms: "ms \<in> set (map rstart ?mr)" "\<forall>r \<in> set ?mr. ms \<le> rstart r" and
    me: "me \<in> set (map rend ?mr)" "\<forall>r \<in> set ?mr. rend r \<le> me" and
    str: "str = ''-'' \<longleftrightarrow>
            length (filter (\<lambda>x. strand x = ''-'') [bed_minus, bed_minus, bed_plus])
              > length (filter (\<lambda>x. strand x \<noteq> ''-'') [bed_minus, bed_minus, bed_plus])"
    by blast
  from ms have "ms = 100" by auto
  moreover from me have "me = 400" by auto
  moreover from str have "str = ''-''"
    by (simp add: bed_minus_def bed_plus_def)
  ultimately show ?thesis
    using p res by simp
qed

text \<open>
  The claim as stated fails on a tie: one record on the strand \<open>-\<close> and one on \<open>+\<close>
  merge to the strand \<open>+\<close>.
\<close>

theorem merge_ranges_tie_counterexample:
  "length (filter (\<lambda>x. strand x = ''-'') [bed_minus, bed_plus])
     = length (filter (\<lambda>x. strand x = ''+'') [bed_minus, bed_plus])
   \<and> merge_ranges example_range_parse [bed_minus, bed_plus]
       = Inr ([], Some (''Scaffold1'', 100, 400, ''+''))
   \<and> merge_ranges example_range_parse [bed_minus, bed_plus]
       \<noteq> Inr ([], Some (''Scaffold1'', 100, 400, ''-''))"
  by (simp add: merge_ranges_def example_range_parse_def bed_minus_def bed_plus_def)

text \<open>
  Claim C9, as amended. On a group of one record \<^verbatim>\<open>merge_ranges\<close> returns the
  sequence id, start and end of the range parsed from that record's accession (not the
  start and end fields of the BED line), with the strand \<open>-\<close> when the record's strand
  is \<open>-\<close> and the strand \<open>+\<close> for every other strand: the record's own strand when
  that is \<open>+\<close> or \<open>-\<close>.
\<close>

theorem merge_ranges_single_record:
  assumes "range_parse (accn b) = Inr r"
  shows "merge_ranges range_parse [b] =
           Inr ([], Some (rseqid r, rstart r, rend r, if strand b = ''-'' then ''-'' else ''+''))
       \<and> (strand b = ''+'' \<or> strand b = ''-'' \<longrightarrow>
            merge_ranges range_parse [b] = Inr ([], Some (rseqid r, rstart r, rend r, strand b)))"
  using assms by (auto simp: merge_ranges_def)

theorem merge_ranges_single_record_witness:
  "example_range_parse (accn bed_minus) = Inr \<lparr>rseqid = ''Scaffold1'', rstart = 100, rend = 200\<rparr>
   \<and> strand bed_minus = ''-''
   \<and> merge_ranges example_range_parse [bed_minus] = Inr ([], Some (''Scaffold1'', 100, 200, ''-''))"
proof -
  have p: "example_range_parse (accn bed_minus)
             = Inr \<lparr>rseqid = ''Scaffold1'', rstart = 100, rend = 200\<rparr>"
    by (simp add: example_range_parse_def bed_minus_def)
  have s: "strand bed_minus = ''-''"
    by (simp add: bed_minus_def)
  from merge_ranges_single_record [of example_range_parse bed_minus, OF p] s
  have "merge_ranges example_range_parse [bed_minus] = Inr ([], Some (''Scaffold1'', 100, 200, ''-''))"
    by simp
  with p s show ?thesis by simp
qed

text \<open>
  The claim as stated fails on a record without a strand: the BED line runs from 1000
  to 5000 with the strand \<open>.\<close>, and the result runs from 100 to 200, the bounds of
  its accession, on the strand \<open>+\<close>.
\<close>

theorem merge_ranges_single_record_counterexample:
  "start bed_dot = 1000 \<and> end_pos bed_dot = 5000 \<and> strand bed_dot = ''.''
   \<and> merge_ranges example_range_parse [bed_dot] = Inr ([], Some (''Scaffold1'', 100, 200, ''+''))
   \<and> merge_ranges example_range_parse [bed_dot]
       \<noteq> Inr ([], Some (''Scaffold1'', start bed_dot, end_pos bed_dot, strand bed_dot))
   \<and> merge_ranges example_range_parse [bed_dot]
       \<noteq> Inr ([], Some (''Scaffold1'', 100, 200, strand bed_dot))"
  by (simp add: merge_ranges_def example_range_parse_def bed_dot_def)

section \<open>Properties of the loops over groups\<close>





lemma concat_groupby: "concat (map snd (groupby f xs)) = xs"
proof (induction xs)
  case Nil
  then show ?case by simp
next
  case (Cons x xs)
  then show ?case
    by (cases "groupby f xs") (auto split: prod.splits)
qed



text \<open>
  Whatever the keys do: a state the loop returns has been built by bodies that
  returned, each on a group that is not empty.
\<close>

lemma groupby_run_invariant:
  assumes "groupby_run key body k sb xs s = Inr s'"
      and "sb \<noteq> []"
      and "Inv s"
      and step: "\<And>k sb s s'. sb \<noteq> [] \<Longrightarrow> Inv s \<Longrightarrow> body k sb s = Inr s' \<Longrightarrow> Inv s'"
  shows "Inv s'"
  using assms(1-3)
proof (induction xs arbitrary: k sb s)
  case Nil
  then show ?case using step by auto
next
  case (Cons x xs)
  from Cons.prems(1) obtain k' where kx: "key x = Inr k'"
    by (auto split: sum.splits)
  show ?case
  proof (cases "k' = k")
    case True
    with Cons.prems kx have "groupby_run key body k (sb @ [x]) xs s = Inr s'" by simp
    from Cons.IH [OF this _ Cons.prems(3)] show ?thesis by simp
  next
    case False
    with Cons.prems kx obtain s1 where
      b: "body k sb s = Inr s1" and r: "groupby_run key body k' [x] xs s1 = Inr s'"
      by (auto split: sum.splits)
    from step [OF Cons.prems(2) Cons.prems(3) b] have "Inv s1" .
    from Cons.IH [OF r _ this] show ?thesis by simp
  qed
qed

lemma for_groupby_invariant:
  assumes "for_groupby key body xs s = Inr s'"
      and "Inv s"
      and "\<And>k sb s s'. sb \<noteq> [] \<Longrightarrow> Inv s \<Longrightarrow> body k sb s = Inr s' \<Longrightarrow> Inv s'"
  shows "Inv s'"
proof (cases xs)
  case Nil
  with assms(1,2) show ?thesis by (simp add: for_groupby_def)
next
  case (Cons x rest)
  with assms(1) obtain k where "groupby_run key body k [x] rest s = Inr s'"
    by (auto simp: for_groupby_def split: sum.splits)
  from groupby_run_invariant [where Inv = Inv, OF this _ assms(2) assms(3)] show ?thesis
    by simp
qed

section \<open>Properties of \<^verbatim>\<open>prepare\<close>\<close>


lemma merge_ranges_logs_nothing:
  "merge_ranges range_parse sb = Inr (logged, Some m) \<Longrightarrow> logged = []"
  by (auto simp: merge_ranges_def Let_def split: sum.splits list.splits)







text \<open>What one run of the loop body writes: the merged interval of the group, widened by
  the flank and clipped to the sequence.\<close>

lemma patch_clipped:
  assumes "patch range_parse sizes sb = Inr p"
  shows "\<exists>ms me size'.
           merge_ranges range_parse sb = Inr ([], Some (p_chr p, ms, me, p_strand p))
           \<and> sizes (p_chr p) = Some size'
           \<and> p_start p = max (ms - 10000) 0
           \<and> p_end p = min (me + 10000) size'
           \<and> 0 \<le> p_start p \<and> p_end p \<le> size'"
proof -
  from assms obtain logged chr ms me str size' where
    m: "merge_ranges range_parse sb = Inr (logged, Some (chr, ms, me, str))" and
    s: "sizes chr = Some size'" and
    p: "p = \<lparr>p_chr = chr, p_start = max (ms - Flank) 0, p_end = min (me + Flank) size',
             p_strand = str\<rparr>"
    by (auto simp: patch_def split: sum.splits option.splits prod.splits)
  from merge_ranges_logs_nothing [OF m] have "logged = []" .
  with m s p show ?thesis
    by (simp add: Flank_def)
qed

text \<open>
  Claim C6. Every interval \<^verbatim>\<open>prepare\<close> writes is the merged interval of a group,
  widened by the flank of 10000 on both sides and clipped: its start is the larger of
  start - 10000 and 0, its end the smaller of end + 10000 and the length of its
  sequence, so the start is never below 0 and the end never above that length.
\<close>

theorem prepare_flank_clipped:
  assumes "prepare bb range_parse sizes pf bed = Inr (bed_fw, tpf_fw)"
  shows "\<exists>ps. bed_fw = map bed_line ps
           \<and> tpf_fw = join TAB [''telomere'', pf, ''na''] # map (tpf_line pf) ps
           \<and> (\<forall>p \<in> set ps. \<exists>sb ms me size'.
                 merge_ranges range_parse sb = Inr ([], Some (p_chr p, ms, me, p_strand p))
                 \<and> sizes (p_chr p) = Some size'
                 \<and> p_start p = max (ms - 10000) 0
                 \<and> p_end p = min (me + 10000) size'
                 \<and> 0 \<le> p_start p \<and> p_end p \<le> size')"
proof -
  let ?ok = "\<lambda>p. \<exists>sb ms me size'.
                 merge_ranges range_parse sb = Inr ([], Some (p_chr p, ms, me, p_strand p))
                 \<and> sizes (p_chr p) = Some size'
                 \<and> p_start p = max (ms - 10000) 0
                 \<and> p_end p = min (me + 10000) size'
                 \<and> 0 \<le> p_start p \<and> p_end p \<le> size'"
  from assms obtain ps where
    c: "condense range_parse sizes (uniqbed bb bed) = Inr ps" and
    out: "bed_fw = map bed_line ps"
         "tpf_fw = join TAB [''telomere'', pf, ''na''] # map (tpf_line pf) ps"
    by (auto simp: prepare_def split: sum.splits)
  have step: "\<forall>p \<in> set out'. ?ok p"
    if "\<forall>p \<in> set out. ?ok p" and "patch_step range_parse sizes k sb out = Inr out'"
    for k sb out out'
  proof -
    from that(2) obtain p where p: "patch range_parse sizes sb = Inr p" and o: "out' = out @ [p]"
      by (auto simp: patch_step_def split: sum.splits)
    from patch_clipped [OF p] have "?ok p" by blast
    with that(1) o show ?thesis by auto
  qed
  have "\<forall>p \<in> set ps. ?ok p"
    using c unfolding condense_def
    by (rule for_groupby_invariant [where Inv = "\<lambda>out. \<forall>p \<in> set out. ?ok p"])
      (simp, rule step)
  with out show ?thesis by blast
qed

theorem prepare_flank_clipped_witness:
  "prepare ''Scaffold'' example_range_parse example_sizes ''om'' [bed_minus, bed_plus, bed_other]
     = Inr ([join TAB [''Scaffold1'', ''0'', ''5000''], join TAB [''contig7'', ''0'', ''90'']],
            [join TAB [''telomere'', ''om'', ''na''],
             join TAB [''Scaffold1:0-5000'', ''om'', ''+''],
             join TAB [''contig7:0-90'', ''om'', ''+'']])
   \<and> (\<exists>ps. [join TAB [''Scaffold1'', ''0'', ''5000''], join TAB [''contig7'', ''0'', ''90'']]
            = map bed_line ps
          \<and> (\<forall>p \<in> set ps. 0 \<le> p_start p
                \<and> (\<exists>size'. example_sizes (p_chr p) = Some size' \<and> p_end p \<le> size')))"
proof -
  define bed_fw where
    "bed_fw = [join TAB [''Scaffold1'', ''0'', ''5000''], join TAB [''contig7'', ''0'', ''90'']]"
  define tpf_fw where
    "tpf_fw = [join TAB [''telomere'', ''om'', ''na''],
               join TAB [''Scaffold1:0-5000'', ''om'', ''+''],
               join TAB [''contig7:0-90'', ''om'', ''+'']]"
  have run: "prepare ''Scaffold'' example_range_parse example_sizes ''om''
               [bed_minus, bed_plus, bed_other] = Inr (bed_fw, tpf_fw)"
    unfolding bed_fw_def tpf_fw_def
    by (simp add: prepare_def uniqbed_def uniq_group_def is_bb_def condense_def for_groupby_def
        condense_key_def patch_step_def patch_def merge_ranges_def example_range_parse_def
        example_sizes_def bed_minus_def bed_plus_def bed_other_def Flank_def bed_line_def
        tpf_line_def str_int_def digit_char_def)
  from prepare_flank_clipped [OF run] obtain ps where
    lines: "bed_fw = map bed_line ps" and
    clipped: "\<forall>p \<in> set ps. \<exists>sb ms me size'.
        merge_ranges example_range_parse sb = Inr ([], Some (p_chr p, ms, me, p_strand p))
        \<and> example_sizes (p_chr p) = Some size'
        \<and> p_start p = max (ms - 10000) 0
        \<and> p_end p = min (me + 10000) size'
        \<and> 0 \<le> p_start p \<and> p_end p \<le> size'"
    by (elim exE conjE)
  have "\<forall>p \<in> set ps. 0 \<le> p_start p
          \<and> (\<exists>size'. example_sizes (p_chr p) = Some size' \<and> p_end p \<le> size')"
  proof
    fix p assume "p \<in> set ps"
    with clipped have "\<exists>sb ms me size'.
        merge_ranges example_range_parse sb = Inr ([], Some (p_chr p, ms, me, p_strand p))
        \<and> example_sizes (p_chr p) = Some size'
        \<and> p_start p = max (ms - 10000) 0
        \<and> p_end p = min (me + 10000) size'
        \<and> 0 \<le> p_start p \<and> p_end p \<le> size'"
      by (rule bspec)
    then obtain size' where
      "example_sizes (p_chr p) = Some size'" "0 \<le> p_start p" "p_end p \<le> size'"
      by (elim exE conjE)
    then show "0 \<le> p_start p
          \<and> (\<exists>size'. example_sizes (p_chr p) = Some size' \<and> p_end p \<le> size')"
      by simp
  qed
  with lines have "\<exists>ps. bed_fw = map bed_line ps
          \<and> (\<forall>p \<in> set ps. 0 \<le> p_start p
                \<and> (\<exists>size'. example_sizes (p_chr p) = Some size' \<and> p_end p \<le> size'))"
    by (intro exI [of _ ps] conjI)
  with run show ?thesis
    unfolding bed_fw_def tpf_fw_def by (intro conjI)
qed

text \<open>
  Claim C8 does not hold of the code. The key of line 310 holds the function
  \<^verbatim>\<open>is_bb\<close>, not \<^verbatim>\<open>is_bb(x)\<close>, so records are grouped by the parsed sequence id
  alone (lemma \<open>condense_groups\<close>). With the backbone prefix \<open>Scaffold1:1\<close> the two
  records below differ in the side preference and share the parsed sequence id: a key
  of side preference and sequence id separates them, and \<^verbatim>\<open>prepare\<close> merges them
  into one patcher.
\<close>

theorem prepare_key_ignores_backbone:
  "is_bb ''Scaffold1:1'' bed_minus \<and> \<not> is_bb ''Scaffold1:1'' bed_plus
   \<and> parsed_seqid example_range_parse bed_minus = ''Scaffold1''
   \<and> parsed_seqid example_range_parse bed_plus = ''Scaffold1''
   \<and> uniqbed ''Scaffold1:1'' [bed_minus, bed_plus] = [bed_minus, bed_plus]
   \<and> condense_key example_range_parse bed_minus = condense_key example_range_parse bed_plus
   \<and> groupby (\<lambda>x. (is_bb ''Scaffold1:1'' x, parsed_seqid example_range_parse x))
        [bed_minus, bed_plus]
       = [((True, ''Scaffold1''), [bed_minus]), ((False, ''Scaffold1''), [bed_plus])]
   \<and> condense example_range_parse example_sizes [bed_minus, bed_plus]
       = Inr [\<lparr>p_chr = ''Scaffold1'', p_start = 0, p_end = 5000, p_strand = ''+''\<rparr>]
   \<and> prepare ''Scaffold1:1'' example_range_parse example_sizes ''om'' [bed_minus, bed_plus]
       = Inr ([join TAB [''Scaffold1'', ''0'', ''5000'']],
              [join TAB [''telomere'', ''om'', ''na''],
               join TAB [''Scaffold1:0-5000'', ''om'', ''+'']])"
  by (simp add: prepare_def uniqbed_def uniq_group_def is_bb_def condense_def for_groupby_def
      condense_key_def parsed_seqid_def patch_step_def patch_def merge_ranges_def
      example_range_parse_def example_sizes_def bed_minus_def bed_plus_def Flank_def
      bed_line_def tpf_line_def str_int_def digit_char_def)

section \<open>Properties of \<^verbatim>\<open>certificate\<close>\<close>



section \<open>The operations on small inputs\<close>

text \<open>
  \<^verbatim>\<open>mapbreaks\<close> on the lines of a genetic map: the rows start after the header line,
  the third marker is a singleton, and the second and fourth, now adjacent, give the
  one break reported.
\<close>

lemma mapbreaks_example:
  "read_mstmap
     [''population_type RIL'', ''locus_name i1 i2 i3 i4'',
      ''s1.10 A A A A'', ''s1.20 A A A A'', ''s1.30 B B B B'',
      ''s1.40 B B A A'', ''s1.50 B B A A''] = mstmap_example
   \<and> mapbreaks
     [''population_type RIL'', ''locus_name i1 i2 i3 i4'',
      ''s1.10 A A A A'', ''s1.20 A A A A'', ''s1.30 B B B B'',
      ''s1.40 B B A A'', ''s1.50 B B A A''] (1 / 10)
     = Inr (1, [join TAB [''s1'', ''20'', ''40'']])"
proof -
  have rd: "read_mstmap
     [''population_type RIL'', ''locus_name i1 i2 i3 i4'',
      ''s1.10 A A A A'', ''s1.20 A A A A'', ''s1.30 B B B B'',
      ''s1.40 B B A A'', ''s1.50 B B A A''] = mstmap_example"
    by (simp add: read_mstmap_def split_ws_def is_space_def mstmap_example_def)
  have idx: "[1..<length mstmap_example - 1] = [1, 2, 3]"
    by (simp add: mstmap_example_def upt_rec)
  have "mapbreaks_data mstmap_example (1 / 10) = Inr (1, [join TAB [''s1'', ''20'', ''40'']])"
    by (simp add: mapbreaks_data_def idx mstmap_example_def check_markers_def
        hamming_distance_def pairwise_def Let_def)
  with rd show ?thesis
    by (simp only: mapbreaks_def simp_thms)
qed

text \<open>
  \<^verbatim>\<open>refine\<close> on an intersection file of two breakpoint regions: the first has no
  overlapping gap and goes to the no-gaps file, the second has the two tied gaps.
\<close>

lemma refine_data_example:
  "refine_data
     ([''chr1'', ''10'', ''20'', ''.'', ''-1'', ''-1'', ''0''] # tied_gaps)
     = Inr ([join TAB [''chr1'', ''10'', ''20'']],
            [join TAB [''chr1'', ''99'', ''109'', ''10'']])"
  by (simp add: refine_data_def tied_gaps_def no_gap_def py_nth_def largest_gap_def sized_def
      py_last_def py_int_def digit_val_def)

text \<open>
  \<^verbatim>\<open>certificate\<close> on a tiling path of one clone. With nothing to the north of it the
  first line to print is the telomere line, and \<open>bphase\<close> has no value yet. With a
  gap to the north the gap line is printed and flushed, and the stored line for the
  southern neighbour follows as it is.
\<close>

lemma certificate_example_telomere:
  "certificate example_env example_certificate ''Scaffold'' [ac1_line] = Inl UnboundLocalError"
  by (simp add: certificate_def certificate_side_def print_line_def phase_def op_join_def
      example_env_def ac1_line_def)

lemma certificate_example_gap:
  "certificate
     (example_env\<lparr>getNorthSouthClone :=
        (\<lambda>i. (Some \<lparr>object = ''chr1'', component_id = ''?'', is_gap = True,
                     isCloneGap = True, gap_type = ''CLONE''\<rparr>,
               Some scaffold9_line))\<rparr>)
     example_certificate ''Scaffold'' [ac1_line]
     = Inr [Print (join TAB [''North'', ''chr1'', ''1'', ''0'', ''AC1'', ''CLONE'' @ TAB @ ''58443'']),
            Flush,
            Print ''South chr1 1 2 AC1 Scaffold9 58443 37835 58443 + Non-terminal'']"
  by (simp add: certificate_def certificate_side_def print_line_def phase_def op_join_def
      example_env_def example_certificate_def ac1_line_def scaffold9_line_def str_int_def
      digit_char_def)

end
